theory Spec2Isabelle
  imports Complex_Main "HOL-Library.Word"
begin

section \<open>JavaScript values\<close>

text \<open>
  A JavaScript string is a sequence of UTF-16 code units. String literals of the
  source are ASCII; \<open>lit\<close> turns an ASCII literal into its code units.
\<close>

type_synonym jschar = "16 word"
type_synonym jsstring = "jschar list"

definition lit :: "string \<Rightarrow> jsstring" where
  "lit s = map of_char s"

text \<open>
  The values that flow through the program: form fields, the request payload and
  the decoded JSON bodies. The program never computes with a number (it only
  stores, forwards and compares them), so a number is modelled by the rational
  it denotes. An object is its own properties in insertion order.
\<close>

datatype jsval =
    JUndefined
  | JNull
  | JBool bool
  | JNum rat
  | JStr jsstring
  | JArr "jsval list"
  | JObj "(jsstring \<times> jsval) list"

type_synonym jsobject = "(jsstring \<times> jsval) list"

text \<open>Truthiness, as used by \<open>!x\<close>, \<open>x || y\<close> and \<open>x && y\<close>.\<close>

fun truthy :: "jsval \<Rightarrow> bool" where
  "truthy JUndefined = False"
| "truthy JNull = False"
| "truthy (JBool b) = b"
| "truthy (JNum n) = (n \<noteq> 0)"
| "truthy (JStr s) = (s \<noteq> [])"
| "truthy (JArr _) = True"
| "truthy (JObj _) = True"

text \<open>\<open>a || b\<close>\<close>

definition js_or :: "jsval \<Rightarrow> jsval \<Rightarrow> jsval" where
  "js_or a b = (if truthy a then a else b)"

text \<open>\<open>o.k\<close> on an object of plain data: the own property, or \<open>undefined\<close>.\<close>

definition obj_get :: "jsobject \<Rightarrow> jsstring \<Rightarrow> jsval" where
  "obj_get kvs k = (case map_of kvs k of Some v \<Rightarrow> v | None \<Rightarrow> JUndefined)"

text \<open>
  \<open>{...prev, [k]: v}\<close>: a copy of \<open>prev\<close> in which \<open>k\<close> holds \<open>v\<close>; an existing
  key keeps its position, a new key goes last.
\<close>

fun obj_set :: "jsobject \<Rightarrow> jsstring \<Rightarrow> jsval \<Rightarrow> jsobject" where
  "obj_set [] k v = [(k, v)]"
| "obj_set ((k', v') # kvs) k v =
     (if k' = k then (k, v) # kvs else (k', v') # obj_set kvs k v)"

text \<open>
  \<open>x?.message\<close> for a decoded JSON value \<open>x\<close>: \<open>undefined\<close> when \<open>x\<close> is
  \<open>null\<close> or \<open>undefined\<close>; the own property of an object; \<open>undefined\<close> on
  a boolean, number, string or array, none of which has a property of that name.
\<close>

definition opt_message :: "jsval \<Rightarrow> jsval" where
  "opt_message x = (case x of JObj kvs \<Rightarrow> obj_get kvs (lit ''message'') | _ \<Rightarrow> JUndefined)"

text \<open>
  \<open>String.prototype.trim\<close> removes leading and trailing white space and line
  terminators: TAB, LF, VT, FF, CR, SPACE, NBSP, U+1680, U+2000 to U+200A,
  U+2028, U+2029, U+202F, U+205F, U+3000 and U+FEFF.
\<close>

definition is_space :: "jschar \<Rightarrow> bool" where
  "is_space c = (c \<in> set [0x0009, 0x000A, 0x000B, 0x000C, 0x000D, 0x0020, 0x00A0,
     0x1680, 0x2000, 0x2001, 0x2002, 0x2003, 0x2004, 0x2005, 0x2006, 0x2007, 0x2008,
     0x2009, 0x200A, 0x2028, 0x2029, 0x202F, 0x205F, 0x3000, 0xFEFF])"

definition trim :: "jsstring \<Rightarrow> jsstring" where
  "trim s = rev (dropWhile is_space (rev (dropWhile is_space s)))"

section \<open>Exceptions and promises\<close>

text \<open>
  What the program reads of a thrown value: \<open>message\<close>, and on an axios error
  \<open>response\<close> (present when the server answered) and \<open>request\<close> (present when
  the request was sent). \<open>new Error(m)\<close> has neither.
\<close>

record response =
  data :: jsval
  status :: nat
  statusText :: jsstring

record js_error =
  message :: jsstring
  response :: "response option"
  request :: bool

definition new_Error :: "jsstring \<Rightarrow> js_error" where
  "new_Error m = \<lparr>message = m, response = None, request = False\<rparr>"

text \<open>
  A settled promise, seen through \<open>await\<close>: \<open>Inr v\<close> when fulfilled with \<open>v\<close>,
  \<open>Inl e\<close> when rejected with \<open>e\<close>; the same sum is the result of a block that
  returns \<open>v\<close> or throws \<open>e\<close>.
\<close>

type_synonym 'a outcome = "js_error + 'a"

text \<open>\<open>try { body } catch (error) { handler }\<close>\<close>

definition try_catch :: "'a outcome \<Rightarrow> (js_error \<Rightarrow> 'a outcome) \<Rightarrow> 'a outcome" where
  "try_catch body handler = (case body of Inr v \<Rightarrow> Inr v | Inl e \<Rightarrow> handler e)"

text \<open>Sequencing inside a block: the rest runs on the value, a throw propagates.\<close>

definition and_then :: "'a outcome \<Rightarrow> ('a \<Rightarrow> 'b outcome) \<Rightarrow> 'b outcome" where
  "and_then m f = (case m of Inl e \<Rightarrow> Inl e | Inr v \<Rightarrow> f v)"

text \<open>
  A template literal \<open>`...${x}`\<close> converts \<open>x\<close> to a string. A string converts to
  itself. The conversion of any other value is the runtime's \<open>ToString\<close>, taken
  as a parameter (it may throw a \<open>TypeError\<close>).
\<close>

type_synonym to_string = "jsval \<Rightarrow> jsstring outcome"

definition interpolate :: "to_string \<Rightarrow> jsval \<Rightarrow> jsstring outcome" where
  "interpolate toStr x = (case x of JStr s \<Rightarrow> Inr s | _ \<Rightarrow> toStr x)"

section \<open>The transport: the axios instance\<close>

record axios_config =
  baseURL :: jsstring
  timeout :: nat
  headers :: "(jsstring \<times> jsstring) list"

definition api :: axios_config where
  "api = \<lparr>baseURL = lit ''http://localhost:8000'',
          timeout = 60000,
          headers = [(lit ''Content-Type'', lit ''application/json'')]\<rparr>"

text \<open>
  What happens to a request on the wire: no response arrives (connection
  refused, DNS failure, or the configured timeout elapses), a response arrives,
  or the request could not be set up and was never sent.
\<close>

datatype transport =
    NoResponse
  | HttpResponse response
  | NotSent

text \<open>
  The axios library is not part of the repository. Its documented behaviour
  with the default \<open>validateStatus\<close>, which the instance \<open>api\<close> does not
  override: the promise is fulfilled with the response when the status is 2xx,
  and rejected otherwise, with \<open>error.response\<close> set when a response arrived
  and \<open>error.request\<close> set when the request was sent. The text \<open>m\<close> of axios'
  own error message is left open.
\<close>

definition validateStatus :: "nat \<Rightarrow> bool" where
  "validateStatus s = (200 \<le> s \<and> s < 300)"

fun axios_settle :: "jsstring \<Rightarrow> transport \<Rightarrow> response outcome" where
  "axios_settle m NoResponse = Inl \<lparr>message = m, response = None, request = True\<rparr>"
| "axios_settle m (HttpResponse r) =
     (if validateStatus (status r) then Inr r
      else Inl \<lparr>message = m, response = Some r, request = True\<rparr>)"
| "axios_settle m NotSent = Inl \<lparr>message = m, response = None, request = False\<rparr>"

section \<open>services/api.js\<close>

text \<open>
  \<open>generateContent\<close> after \<open>api.post('/generate', payload)\<close> has settled with
  \<open>posted\<close>. \<open>console.error\<close> only logs and is left out.
\<close>

definition generateContent :: "to_string \<Rightarrow> response outcome \<Rightarrow> jsval outcome" where
  "generateContent toStr posted =
     try_catch
       (and_then posted (\<lambda>response. Inr (data response)))
       (\<lambda>error.
          case response error of
            Some r \<Rightarrow>
              and_then (interpolate toStr (js_or (opt_message (data r)) (JStr (statusText r))))
                (\<lambda>s. Inl (new_Error (lit ''API Error: '' @ s)))
          | None \<Rightarrow>
              if request error then
                Inl (new_Error (lit
                  ''Network Error: Unable to connect to server. Please check if backend is running.''))
              else
                and_then (interpolate toStr (JStr (message error)))
                  (\<lambda>s. Inl (new_Error (lit ''Request Error: '' @ s))))"

text \<open>\<open>checkHealth\<close> after \<open>api.get('/health')\<close> has settled with \<open>got\<close>.\<close>

definition checkHealth :: "response outcome \<Rightarrow> bool outcome" where
  "checkHealth got =
     try_catch
       (and_then got (\<lambda>response. Inr (status response = 200)))
       (\<lambda>error. Inr False)"

section \<open>App.jsx: the submission state\<close>

text \<open>
  The three \<open>useState\<close> cells of \<open>App\<close>. The spec's \<open>Idle\<close> is
  \<open>(null, false, null)\<close>, \<open>Loading\<close> is \<open>isLoading = true\<close>, \<open>Success(r)\<close> is
  \<open>(r, false, null)\<close> and \<open>Failure\<close> is \<open>(null, false, m)\<close> with \<open>m\<close> the message
  of the error \<open>generateContent\<close> threw. The program has no error classes: the
  kind of a failure is the prefix of that message, \<open>API Error: \<close> for a server
  error, \<open>Network Error: \<close> for a network error and \<open>Request Error: \<close> for an
  error before the request was sent.
\<close>

record app_state =
  result :: jsval
  isLoading :: bool
  error :: jsval

definition app_init :: app_state where
  "app_init = \<lparr>result = JNull, isLoading = False, error = JNull\<rparr>"

definition setResult :: "jsval \<Rightarrow> app_state \<Rightarrow> app_state" where
  "setResult v st = st\<lparr>result := v\<rparr>"

definition setIsLoading :: "bool \<Rightarrow> app_state \<Rightarrow> app_state" where
  "setIsLoading b st = st\<lparr>isLoading := b\<rparr>"

definition setError :: "jsval \<Rightarrow> app_state \<Rightarrow> app_state" where
  "setError v st = st\<lparr>error := v\<rparr>"

text \<open>
  \<open>handleGenerate\<close> runs in two turns of the event loop. The first, up to the
  \<open>await\<close>, sets the three cells and sends the request. The second runs when
  the request has settled: \<open>try\<close>, \<open>catch\<close> and \<open>finally\<close>. The setter calls of
  one turn take effect together; no other handler runs between them.
\<close>

definition handleGenerate_begin :: "app_state \<Rightarrow> app_state" where
  "handleGenerate_begin st = setResult JNull (setError JNull (setIsLoading True st))"

definition handleGenerate_settle :: "to_string \<Rightarrow> response outcome \<Rightarrow> app_state \<Rightarrow> app_state" where
  "handleGenerate_settle toStr posted st =
     setIsLoading False
       (case generateContent toStr posted of
          Inr resp \<Rightarrow> setResult resp st
        | Inl err \<Rightarrow> setError (JStr (message err)) st)"

definition handleReset :: "app_state \<Rightarrow> app_state" where
  "handleReset st = setError JNull (setResult JNull st)"

section \<open>components/Generator.jsx\<close>

definition initial_formData :: jsobject where
  "initial_formData =
     [(lit ''text'', JStr []),
      (lit ''platform'', JStr (lit ''General'')),
      (lit ''temperature'', JNum (7 / 10)),
      (lit ''max_tokens'', JNum 256),
      (lit ''use_legacy'', JBool False)]"

text \<open>\<open>e.target\<close> of a change event, as \<open>handleInputChange\<close> destructures it.\<close>

record change_target =
  target_name :: jsstring
  target_value :: jsstring
  target_type :: jsstring
  target_checked :: bool

definition handleInputChange :: "change_target \<Rightarrow> jsobject \<Rightarrow> jsobject" where
  "handleInputChange e prev =
     obj_set prev (target_name e)
       (if target_type e = lit ''checkbox'' then JBool (target_checked e)
        else JStr (target_value e))"

text \<open>
  \<open>!formData.text.trim()\<close>. Calling \<open>trim\<close> on anything but a string throws a
  \<open>TypeError\<close> (the text of the engine's message is not modelled).
\<close>

definition TypeError :: js_error where
  "TypeError = new_Error (lit ''TypeError'')"

definition text_is_blank :: "jsobject \<Rightarrow> bool outcome" where
  "text_is_blank formData =
     (case obj_get formData (lit ''text'') of
        JStr t \<Rightarrow> Inr (\<not> truthy (JStr (trim t)))
      | _ \<Rightarrow> Inl TypeError)"

text \<open>
  What \<open>handleSubmit\<close> does besides \<open>e.preventDefault()\<close>: it raises the alert
  or calls \<open>onGenerate\<close>.
\<close>

datatype submit_effect = Alert jsstring | OnGenerate jsobject

definition handleSubmit :: "jsobject \<Rightarrow> submit_effect outcome" where
  "handleSubmit formData =
     and_then (text_is_blank formData)
       (\<lambda>blank. if blank then Inr (Alert (lit ''Please enter your content idea''))
                else Inr (OnGenerate formData))"

text \<open>The \<open>disabled\<close> attribute of the submit button: \<open>isLoading || !formData.text.trim()\<close>.\<close>

definition button_disabled :: "bool \<Rightarrow> jsobject \<Rightarrow> bool outcome" where
  "button_disabled loading formData =
     (if loading then Inr True else text_is_blank formData)"

text \<open>
  The five elements wired to \<open>handleInputChange\<close>, with the \<open>name\<close> and the
  \<open>type\<close> the JSX gives them, and the values they can report. The value of an
  element is a string whatever its type; a checkbox reports \<open>checked\<close>.

  The \<open>select\<close> reports the value of one of its four options.
\<close>

datatype platform_option = General | Instagram | LinkedIn | YouTubeScript

fun option_value :: "platform_option \<Rightarrow> jsstring" where
  "option_value General = lit ''General''"
| "option_value Instagram = lit ''Instagram''"
| "option_value LinkedIn = lit ''LinkedIn''"
| "option_value YouTubeScript = lit ''YouTube Script''"

text \<open>
  The slider is \<open>type="range" min="0" max="1" step="0.1"\<close>: the browser keeps
  its value on one of the eleven notches 0, 0.1, ..., 1, whatever the user
  does. \<open>slider_value k\<close> is what it reports on notch \<open>k\<close>; past the last notch
  is the last notch.
\<close>

definition slider_value :: "nat \<Rightarrow> jsstring" where
  "slider_value k =
     (if k = 0 then lit ''0'' else if 10 \<le> k then lit ''1''
      else lit ''0.'' @ [0x30 + of_nat k])"

text \<open>
  The textarea reports any string and so does, in this model, the number
  element (a browser reports the empty string there when what was typed is
  not a number).
\<close>

datatype field_edit =
    EditText jsstring
  | EditPlatform platform_option
  | EditMaxTokens jsstring
  | EditTemperature nat
  | EditUseLegacy bool

fun target_of :: "field_edit \<Rightarrow> change_target" where
  "target_of (EditText v) =
     \<lparr>target_name = lit ''text'', target_value = v,
      target_type = lit ''textarea'', target_checked = False\<rparr>"
| "target_of (EditPlatform p) =
     \<lparr>target_name = lit ''platform'', target_value = option_value p,
      target_type = lit ''select-one'', target_checked = False\<rparr>"
| "target_of (EditMaxTokens v) =
     \<lparr>target_name = lit ''max_tokens'', target_value = v,
      target_type = lit ''number'', target_checked = False\<rparr>"
| "target_of (EditTemperature k) =
     \<lparr>target_name = lit ''temperature'', target_value = slider_value k,
      target_type = lit ''range'', target_checked = False\<rparr>"
| "target_of (EditUseLegacy b) =
     \<lparr>target_name = lit ''use_legacy'', target_value = lit ''on'',
      target_type = lit ''checkbox'', target_checked = b\<rparr>"

text \<open>
  The form has no \<open>noValidate\<close>, so the browser fires its \<open>submit\<close> event only
  when every field satisfies its constraints. Which form states the browser
  accepts is a parameter of the page below, of this type; the general theorems
  hold for every such check.
\<close>

type_synonym validity = "jsobject \<Rightarrow> bool"

text \<open>
  For concrete runs, the constraints the JSX declares: the textarea is
  \<open>required\<close>; the number element has \<open>min="50" max="1024" step="16"\<close>, so it
  is valid when empty or when its number is 50 plus a multiple of 16 and at
  most 1024; the other elements have no constraint that can fail. The number
  is read when it is the stored number or a string of decimal digits; a number
  spelled with a sign, a fraction or an exponent is not accepted here, so a
  run that this check lets through is one the browser lets through.
\<close>

definition is_digit :: "jschar \<Rightarrow> bool" where
  "is_digit c = (0x30 \<le> c \<and> c \<le> 0x39)"

definition decimal :: "jsstring \<Rightarrow> nat option" where
  "decimal v =
     (if v \<noteq> [] \<and> list_all is_digit v
      then Some (foldl (\<lambda>a c. 10 * a + (unat c - 48)) 0 v) else None)"

definition in_step :: "nat \<Rightarrow> bool" where
  "in_step n = (50 \<le> n \<and> n \<le> 1024 \<and> (n - 50) mod 16 = 0)"

definition text_present :: "jsobject \<Rightarrow> bool" where
  "text_present fd = (case obj_get fd (lit ''text'') of JStr t \<Rightarrow> t \<noteq> [] | _ \<Rightarrow> False)"

definition max_tokens_valid :: "jsobject \<Rightarrow> bool" where
  "max_tokens_valid fd =
     (case obj_get fd (lit ''max_tokens'') of
        JStr v \<Rightarrow>
          (if v = [] then True
           else case decimal v of Some n \<Rightarrow> in_step n | None \<Rightarrow> False)
      | JNum x \<Rightarrow> 0 \<le> x \<and> of_int \<lfloor>x\<rfloor> = x \<and> in_step (nat \<lfloor>x\<rfloor>)
      | _ \<Rightarrow> False)"

definition form_valid :: validity where
  "form_valid fd = (text_present fd \<and> max_tokens_valid fd)"

section \<open>The orchestrator on the event loop\<close>

text \<open>
  \<open>App\<close> together with the requests it has sent that have not settled yet.
  Each call of \<open>handleGenerate\<close> posts its argument to \<open>/generate\<close> and suspends;
  when that request settles, the rest of the call runs in one turn.
\<close>

record http_post =
  url :: jsstring
  body :: jsval

record orchestrator =
  app :: app_state
  inflight :: "http_post list"

definition orch_init :: orchestrator where
  "orch_init = \<lparr>app = app_init, inflight = []\<rparr>"

datatype op =
    Submit jsval
  | Settle nat "response outcome"
  | Reset

fun orch_step :: "to_string \<Rightarrow> orchestrator \<Rightarrow> op \<Rightarrow> orchestrator" where
  "orch_step toStr s (Submit formData) =
     s\<lparr>app := handleGenerate_begin (app s),
       inflight := inflight s @ [\<lparr>url = lit ''/generate'', body = formData\<rparr>]\<rparr>"
| "orch_step toStr s (Settle i posted) =
     (if i < length (inflight s)
      then s\<lparr>app := handleGenerate_settle toStr posted (app s),
             inflight := take i (inflight s) @ drop (Suc i) (inflight s)\<rparr>
      else s)"
| "orch_step toStr s Reset = s\<lparr>app := handleReset (app s)\<rparr>"

definition orch_run :: "to_string \<Rightarrow> orchestrator \<Rightarrow> op list \<Rightarrow> orchestrator" where
  "orch_run toStr s ops = foldl (orch_step toStr) s ops"

section \<open>The page: Generator and App together\<close>

text \<open>
  An exception that escapes an event handler is reported by the browser and the
  page goes on; the model keeps such exceptions in \<open>uncaught\<close>.
\<close>

record page =
  orch :: orchestrator
  formData :: jsobject
  alerts :: "jsstring list"
  uncaught :: "js_error list"

definition page_init :: page where
  "page_init = \<lparr>orch = orch_init, formData = initial_formData, alerts = [], uncaught = []\<rparr>"

text \<open>The form's \<open>submit\<close> event: \<open>handleSubmit\<close>, with \<open>onGenerate = handleGenerate\<close>.\<close>

definition form_submit :: "to_string \<Rightarrow> page \<Rightarrow> page" where
  "form_submit toStr s =
     (case handleSubmit (formData s) of
        Inl e \<Rightarrow> s\<lparr>uncaught := uncaught s @ [e]\<rparr>
      | Inr (Alert m) \<Rightarrow> s\<lparr>alerts := alerts s @ [m]\<rparr>
      | Inr (OnGenerate fd) \<Rightarrow> s\<lparr>orch := orch_step toStr (orch s) (Submit (JObj fd))\<rparr>)"

text \<open>
  What the user can do and what the network can do. A click on a disabled
  submit button does nothing; a click on an enabled one submits the form when
  the browser finds the form valid, and otherwise only shows the browser's
  own message. The dismiss button is rendered only while \<open>error\<close> is truthy.
\<close>

datatype page_event =
    Change field_edit
  | ClickGenerate
  | Arrive nat "response outcome"
  | ClickDismiss

fun page_step :: "to_string \<Rightarrow> validity \<Rightarrow> page \<Rightarrow> page_event \<Rightarrow> page" where
  "page_step toStr valid s (Change f) =
     s\<lparr>formData := handleInputChange (target_of f) (formData s)\<rparr>"
| "page_step toStr valid s ClickGenerate =
     (case button_disabled (isLoading (app (orch s))) (formData s) of
        Inl e \<Rightarrow> s\<lparr>uncaught := uncaught s @ [e]\<rparr>
      | Inr True \<Rightarrow> s
      | Inr False \<Rightarrow> if valid (formData s) then form_submit toStr s else s)"
| "page_step toStr valid s (Arrive i posted) =
     s\<lparr>orch := orch_step toStr (orch s) (Settle i posted)\<rparr>"
| "page_step toStr valid s ClickDismiss =
     (if truthy (error (app (orch s)))
      then s\<lparr>orch := orch_step toStr (orch s) Reset\<rparr> else s)"

definition page_run :: "to_string \<Rightarrow> validity \<Rightarrow> page \<Rightarrow> page_event list \<Rightarrow> page" where
  "page_run toStr valid s es = foldl (page_step toStr valid) s es"

text \<open>
  At the concrete inputs used below every interpolated value is a string, so
  the conversion of other values is never reached; this instance fills the
  parameter there.
\<close>

definition ToString_unreached :: to_string where
  "ToString_unreached v = Inl TypeError"

section \<open>Concrete inputs\<close>

text \<open>The request and the response body of the spec's end-to-end example.\<close>

definition sneaker_request :: jsval where
  "sneaker_request = JObj
     [(lit ''text'', JStr (lit ''new sneaker launch'')),
      (lit ''platform'', JStr (lit ''Instagram'')),
      (lit ''temperature'', JNum (8 / 10)),
      (lit ''max_tokens'', JNum 200),
      (lit ''use_legacy'', JBool False)]"

definition sneaker_body :: jsval where
  "sneaker_body = JObj
     [(lit ''content'', JStr ([0xD83D, 0xDD25] @ lit '' New drop!'')),
      (lit ''intent'', JStr (lit ''promotional'')),
      (lit ''sentiment'', JStr (lit ''positive'')),
      (lit ''documents'', JArr [JStr (lit ''d1'')]),
      (lit ''time_taken'', JNum (8 / 10)),
      (lit ''fallback_used'', JBool False),
      (lit ''reason'', JNull)]"

definition sneaker_response :: response where
  "sneaker_response = \<lparr>data = sneaker_body, status = 200, statusText = lit ''OK''\<rparr>"



definition overloaded_response :: response where
  "overloaded_response =
     \<lparr>data = JStr [], status = 503, statusText = lit ''Service Unavailable''\<rparr>"

text \<open>The message \<open>generateContent\<close> throws when no response was received.\<close>

definition network_error_text :: jsstring where
  "network_error_text =
     lit ''Network Error: Unable to connect to server. Please check if backend is running.''"

text \<open>Two submissions and their answers.\<close>

definition request_A :: jsval where
  "request_A = JObj [(lit ''text'', JStr (lit ''A''))]"

definition request_B :: jsval where
  "request_B = JObj [(lit ''text'', JStr (lit ''B''))]"

definition response_A :: response where
  "response_A =
     \<lparr>data = JObj [(lit ''content'', JStr (lit ''for A''))], status = 200, statusText = lit ''OK''\<rparr>"

definition response_B :: response where
  "response_B =
     \<lparr>data = JObj [(lit ''content'', JStr (lit ''for B''))], status = 200, statusText = lit ''OK''\<rparr>"

text \<open>Form data with a temperature and a token count outside the declared ranges.\<close>

definition out_of_range_request :: jsval where
  "out_of_range_request = JObj
     [(lit ''text'', JStr (lit ''hi'')),
      (lit ''platform'', JStr (lit ''General'')),
      (lit ''temperature'', JNum (17 / 10)),
      (lit ''max_tokens'', JNum 2000),
      (lit ''use_legacy'', JBool False)]"

text \<open>The same form data with both values clamped to the declared ranges.\<close>

definition clamped_request :: jsval where
  "clamped_request = JObj
     [(lit ''text'', JStr (lit ''hi'')),
      (lit ''platform'', JStr (lit ''General'')),
      (lit ''temperature'', JNum 1),
      (lit ''max_tokens'', JNum 1024),
      (lit ''use_legacy'', JBool False)]"

section \<open>Invariants\<close>

text \<open>
  Of \<open>App\<close> alone, under any order of submissions, completions and resets:
  while \<open>isLoading\<close> is true, \<open>result\<close> and \<open>error\<close> are null.
\<close>

definition loading_inv :: "orchestrator \<Rightarrow> bool" where
  "loading_inv s =
     (if isLoading (app s) then result (app s) = JNull \<and> error (app s) = JNull else True)"

text \<open>
  Of the page: \<open>isLoading\<close> is true exactly while a call is in flight, there is
  at most one such call, and \<open>result\<close> and \<open>error\<close> are never both held.
\<close>

definition page_inv :: "page \<Rightarrow> bool" where
  "page_inv s =
     (if isLoading (app (orch s))
      then length (inflight (orch s)) = 1 \<and>
           result (app (orch s)) = JNull \<and> error (app (orch s)) = JNull
      else inflight (orch s) = [] \<and>
           (result (app (orch s)) = JNull \<or> error (app (orch s)) = JNull))"

text \<open>
  Of the page: \<open>formData.text\<close> is a string and no handler has thrown.
\<close>

fun is_string :: "jsval \<Rightarrow> bool" where
  "is_string (JStr _) = True"
| "is_string _ = False"

definition text_inv :: "page \<Rightarrow> bool" where
  "text_inv s = (is_string (obj_get (formData s) (lit ''text'')) \<and> uncaught s = [])"

section \<open>Basic facts\<close>

lemmas setters = setResult_def setError_def setIsLoading_def

lemmas run_defs = page_run_def orch_run_def page_init_def orch_init_def app_init_def
  initial_formData_def handleInputChange_def button_disabled_def text_is_blank_def
  form_submit_def handleSubmit_def and_then_def try_catch_def obj_get_def trim_def is_space_def
  handleGenerate_begin_def handleGenerate_settle_def handleReset_def generateContent_def
  setResult_def setError_def setIsLoading_def new_Error_def lit_def
  form_valid_def text_present_def max_tokens_valid_def decimal_def is_digit_def in_step_def
  slider_value_def

lemma handleGenerate_begin_eq:
  "handleGenerate_begin st = \<lparr>result = JNull, isLoading = True, error = JNull\<rparr>"
  by (simp add: handleGenerate_begin_def setters)

lemma handleGenerate_settle_not_loading:
  "isLoading (handleGenerate_settle toStr posted st) = False"
  by (simp add: handleGenerate_settle_def setters split: sum.splits)

lemma handleGenerate_settle_one_payload:
  "result st = JNull \<Longrightarrow> error st = JNull \<Longrightarrow>
     result (handleGenerate_settle toStr posted st) = JNull \<or>
     error (handleGenerate_settle toStr posted st) = JNull"
  by (auto simp: handleGenerate_settle_def setters split: sum.splits)

lemma handleReset_fields:
  "result (handleReset st) = JNull"
  "error (handleReset st) = JNull"
  "isLoading (handleReset st) = isLoading st"
  by (simp_all add: handleReset_def setters)

text \<open>\<open>s.trim()\<close> is empty exactly when \<open>s\<close> is empty or all white space.\<close>

lemma trim_blank_iff: "trim t = [] \<longleftrightarrow> (\<forall>c\<in>set t. is_space c)"
proof
  assume "trim t = []"
  then have all: "\<forall>c\<in>set (dropWhile is_space t). is_space c"
    by (simp add: trim_def)
  show "\<forall>c\<in>set t. is_space c"
  proof (cases "dropWhile is_space t")
    case Nil
    then show ?thesis by simp
  next
    case (Cons c cs)
    then have "\<not> is_space c" using hd_dropWhile [of is_space t] by simp
    with all Cons show ?thesis by simp
  qed
next
  assume "\<forall>c\<in>set t. is_space c"
  then have "dropWhile is_space t = []" by simp
  then show "trim t = []" by (simp add: trim_def del: dropWhile_eq_Nil_conv)
qed

text \<open>The three ways the form's submit event can end.\<close>

lemma form_submit_cases:
  "form_submit toStr s = s\<lparr>uncaught := uncaught s @ [TypeError]\<rparr> \<or>
   form_submit toStr s = s\<lparr>alerts := alerts s @ [lit ''Please enter your content idea'']\<rparr> \<or>
   form_submit toStr s = s\<lparr>orch := orch_step toStr (orch s) (Submit (JObj (formData s)))\<rparr>"
  by (auto simp: form_submit_def handleSubmit_def and_then_def text_is_blank_def
      split: jsval.splits sum.splits submit_effect.splits)

subsection \<open>The invariant of App alone\<close>

lemma loading_inv_init: "loading_inv orch_init"
  by (simp add: loading_inv_def orch_init_def app_init_def)

lemma loading_inv_step: "loading_inv s \<Longrightarrow> loading_inv (orch_step toStr s x)"
  by (cases x)
     (simp_all add: loading_inv_def handleGenerate_begin_eq handleGenerate_settle_not_loading
        handleReset_fields)

lemma loading_inv_run: "loading_inv s \<Longrightarrow> loading_inv (orch_run toStr s ops)"
  unfolding orch_run_def
  by (induction ops arbitrary: s) (simp_all add: loading_inv_step)

subsection \<open>The invariant of the page\<close>

lemma page_inv_init: "page_inv page_init"
  by (simp add: page_inv_def page_init_def orch_init_def app_init_def)

lemma page_inv_step: "page_inv s \<Longrightarrow> page_inv (page_step toStr valid s e)"
proof (cases e)
  case (Change f)
  assume "page_inv s"
  then show ?thesis using Change by (simp add: page_inv_def)
next
  case ClickGenerate
  assume inv: "page_inv s"
  show ?thesis
  proof (cases "isLoading (app (orch s))")
    case True
    then show ?thesis using inv ClickGenerate by (simp add: button_disabled_def)
  next
    case False
    have sub: "page_inv (form_submit toStr s)"
      using form_submit_cases [of toStr s] inv False
      by (auto simp: page_inv_def handleGenerate_begin_eq)
    have unc: "page_inv (s\<lparr>uncaught := u\<rparr>)" for u
      using inv by (simp add: page_inv_def)
    show ?thesis using inv False ClickGenerate sub unc
      by (simp add: button_disabled_def split: sum.splits bool.splits)
  qed
next
  case (Arrive i posted)
  assume inv: "page_inv s"
  show ?thesis
  proof (cases "i < length (inflight (orch s))")
    case True
    with inv have l: "isLoading (app (orch s))" "length (inflight (orch s)) = 1" "i = 0"
      "result (app (orch s)) = JNull" "error (app (orch s)) = JNull"
      by (auto simp: page_inv_def split: if_splits)
    then show ?thesis
      using Arrive True handleGenerate_settle_one_payload [of "app (orch s)" toStr posted]
      by (auto simp: page_inv_def handleGenerate_settle_not_loading)
  next
    case False
    then show ?thesis using inv Arrive by (simp add: page_inv_def)
  qed
next
  case ClickDismiss
  assume "page_inv s"
  then show ?thesis using ClickDismiss by (auto simp: page_inv_def handleReset_fields)
qed

lemma page_inv_run: "page_inv s \<Longrightarrow> page_inv (page_run toStr valid s es)"
  unfolding page_run_def
  by (induction es arbitrary: s) (simp_all add: page_inv_step)

subsection \<open>No handler of the page throws\<close>

lemma obj_get_obj_set:
  "obj_get (obj_set kvs k v) k' = (if k' = k then v else obj_get kvs k')"
  by (induction kvs) (auto simp: obj_get_def)

lemma text_inv_init: "text_inv page_init"
  by (simp add: text_inv_def page_init_def initial_formData_def obj_get_def lit_def)

lemma text_inv_step: "text_inv s \<Longrightarrow> text_inv (page_step toStr valid s e)"
proof (cases e)
  case (Change f)
  assume "text_inv s"
  then show ?thesis using Change
    by (cases f) (simp_all add: text_inv_def handleInputChange_def obj_get_obj_set lit_def)
next
  case ClickGenerate
  assume inv: "text_inv s"
  then obtain t where t: "obj_get (formData s) (lit ''text'') = JStr t"
    by (cases "obj_get (formData s) (lit ''text'')") (simp_all add: text_inv_def)
  have keep: "text_inv (s\<lparr>orch := x\<rparr>)" for x
    using inv by (simp add: text_inv_def)
  show ?thesis
  proof (cases "isLoading (app (orch s)) \<or> trim t = []")
    case True
    then have "page_step toStr valid s e = s"
      using t ClickGenerate by (auto simp: button_disabled_def text_is_blank_def)
    with inv show ?thesis by simp
  next
    case False
    then have "page_step toStr valid s e = s \<or> page_step toStr valid s e =
        s\<lparr>orch := orch_step toStr (orch s) (Submit (JObj (formData s)))\<rparr>"
      using t ClickGenerate
      by (simp add: button_disabled_def text_is_blank_def form_submit_def
          handleSubmit_def and_then_def)
    with keep inv show ?thesis by auto
  qed
next
  case (Arrive i posted)
  assume "text_inv s"
  then show ?thesis using Arrive by (simp add: text_inv_def)
next
  case ClickDismiss
  assume "text_inv s"
  then show ?thesis using ClickDismiss by (simp add: text_inv_def)
qed

lemma text_inv_run: "text_inv s \<Longrightarrow> text_inv (page_run toStr valid s es)"
  unfolding page_run_def
  by (induction es arbitrary: s) (simp_all add: text_inv_step)

lemma page_never_throws: "uncaught (page_run toStr valid page_init es) = []"
  using text_inv_run [OF text_inv_init, of toStr valid es]
  by (simp add: text_inv_def)

section \<open>A successful call publishes the decoded body\<close>

text \<open>
  Claim C1. When the POST is answered with a 2xx status, \<open>generateContent\<close>
  returns the decoded body \<open>response.data\<close> as it is, and a submission from any
  state of \<open>App\<close>, with any payload, ends with \<open>result\<close> equal to that body,
  \<open>error\<close> null and \<open>isLoading\<close> false, with no call left in flight.
\<close>

theorem success_publishes_decoded_body:
  assumes "validateStatus (status r)"
  shows "generateContent toStr (axios_settle m (HttpResponse r)) = Inr (data r) \<and>
         orch_run toStr \<lparr>app = st, inflight = []\<rparr>
           [Submit payload, Settle 0 (axios_settle m (HttpResponse r))] =
         \<lparr>app = \<lparr>result = data r, isLoading = False, error = JNull\<rparr>, inflight = []\<rparr>"
  using assms
  by (simp add: orch_run_def generateContent_def try_catch_def and_then_def
      handleGenerate_begin_def handleGenerate_settle_def setters)

text \<open>The spec's end-to-end example: the stub's body is published as it is.\<close>

theorem success_publishes_decoded_body_witness:
  "validateStatus (status sneaker_response) \<and>
   orch_run ToString_unreached \<lparr>app = app_init, inflight = []\<rparr>
     [Submit sneaker_request, Settle 0 (axios_settle [] (HttpResponse sneaker_response))] =
   \<lparr>app = \<lparr>result = sneaker_body, isLoading = False, error = JNull\<rparr>, inflight = []\<rparr>"
proof -
  have h: "validateStatus (status sneaker_response)"
    by (simp add: validateStatus_def sneaker_response_def)
  show ?thesis
    using h success_publishes_decoded_body
      [OF h, of ToString_unreached "[]" app_init sneaker_request]
    by (simp add: sneaker_response_def)
qed

section \<open>A blank text is stopped at the form\<close>

text \<open>
  Claim C2. When the \<open>text\<close> field is empty after trimming, that is (by
  \<open>trim_blank_iff\<close>) when it is empty or holds only white space,
  \<open>handleSubmit\<close> raises the alert and does not call \<open>onGenerate\<close>: the form's
  submit event adds the alert and leaves everything else, the calls in flight
  included, as it was; and the submit button is disabled, so a click on it
  changes nothing.
\<close>

theorem blank_text_never_posts:
  assumes "obj_get (formData s) (lit ''text'') = JStr t" and "trim t = []"
  shows "handleSubmit (formData s) = Inr (Alert (lit ''Please enter your content idea'')) \<and>
         form_submit toStr s = s\<lparr>alerts := alerts s @ [lit ''Please enter your content idea'']\<rparr> \<and>
         inflight (orch (form_submit toStr s)) = inflight (orch s) \<and>
         page_step toStr valid s ClickGenerate = s"
proof -
  from assms have blank: "text_is_blank (formData s) = Inr True"
    by (simp add: text_is_blank_def)
  then have hs: "handleSubmit (formData s) = Inr (Alert (lit ''Please enter your content idea''))"
    by (simp add: handleSubmit_def and_then_def)
  then have fs: "form_submit toStr s = s\<lparr>alerts := alerts s @ [lit ''Please enter your content idea'']\<rparr>"
    by (simp add: form_submit_def)
  have "page_step toStr valid s ClickGenerate = s"
    using blank by (simp add: button_disabled_def)
  with hs fs show ?thesis by simp
qed

text \<open>A text of a space, a tab and an ideographic space.\<close>

theorem blank_text_never_posts_witness:
  "obj_get (formData (page_step ToString_unreached form_valid page_init (Change (EditText [0x20, 0x09, 0x3000]))))
     (lit ''text'') = JStr [0x20, 0x09, 0x3000] \<and>
   trim [0x20, 0x09, 0x3000] = [] \<and>
   inflight (orch (form_submit ToString_unreached
     (page_step ToString_unreached form_valid page_init (Change (EditText [0x20, 0x09, 0x3000]))))) = [] \<and>
   alerts (form_submit ToString_unreached
     (page_step ToString_unreached form_valid page_init (Change (EditText [0x20, 0x09, 0x3000])))) =
     [lit ''Please enter your content idea'']"
proof -
  let ?s = "page_step ToString_unreached form_valid page_init (Change (EditText [0x20, 0x09, 0x3000]))"
  have h1: "obj_get (formData ?s) (lit ''text'') = JStr [0x20, 0x09, 0x3000]"
    by (simp add: page_init_def initial_formData_def handleInputChange_def obj_get_def lit_def)
  have h2: "trim [0x20, 0x09, 0x3000] = []"
    by (simp add: trim_def is_space_def)
  have i: "inflight (orch ?s) = []" "alerts ?s = []"
    by (simp_all add: page_init_def orch_init_def)
  show ?thesis
    using h1 h2 i blank_text_never_posts [OF h1 h2, of ToString_unreached]
    by simp
qed

section \<open>The payload is the form state\<close>

text \<open>
  Claim C3, as stated, fails. \<open>handleGenerate\<close> called with a temperature of
  1.7 and a token count of 2000 posts exactly what it was given, not the
  values clamped to 1.0 and 1024.
\<close>

theorem clamping_counterexample:
  "map body (inflight (orch_run ToString_unreached orch_init [Submit out_of_range_request])) =
     [JObj [(lit ''text'', JStr (lit ''hi'')),
            (lit ''platform'', JStr (lit ''General'')),
            (lit ''temperature'', JNum (17 / 10)),
            (lit ''max_tokens'', JNum 2000),
            (lit ''use_legacy'', JBool False)]] \<and>
   map body (inflight (orch_run ToString_unreached orch_init [Submit out_of_range_request])) \<noteq>
     [clamped_request]"
  by (simp add: orch_run_def orch_init_def out_of_range_request_def clamped_request_def)

text \<open>
  Claim C3, amended. The code normalizes nothing. For every form state with a
  text that is not blank, \<open>handleSubmit\<close> passes the form state on as it is and
  the form's submit event adds exactly one request, a POST to \<open>/generate\<close>
  whose body is that form state; \<open>handleGenerate\<close> posts whatever payload it
  is given, unchanged. The declared ranges act only through the browser: a
  click on the submit button while the browser finds the form invalid changes
  nothing, so nothing is posted.
\<close>

theorem payload_is_form_state:
  assumes "obj_get (formData s) (lit ''text'') = JStr t" and "trim t \<noteq> []"
  shows "handleSubmit (formData s) = Inr (OnGenerate (formData s)) \<and>
         form_submit toStr s =
           s\<lparr>orch := \<lparr>app = handleGenerate_begin (app (orch s)),
                       inflight = inflight (orch s) @
                         [\<lparr>url = lit ''/generate'', body = JObj (formData s)\<rparr>]\<rparr>\<rparr> \<and>
         inflight (orch_step toStr x (Submit payload)) =
           inflight x @ [\<lparr>url = lit ''/generate'', body = payload\<rparr>] \<and>
         (\<not> valid (formData s) \<longrightarrow> page_step toStr valid s ClickGenerate = s)"
proof -
  from assms have blank: "text_is_blank (formData s) = Inr False"
    by (simp add: text_is_blank_def)
  then have hs: "handleSubmit (formData s) = Inr (OnGenerate (formData s))"
    by (simp add: handleSubmit_def and_then_def)
  then have fs: "form_submit toStr s =
           s\<lparr>orch := \<lparr>app = handleGenerate_begin (app (orch s)),
                       inflight = inflight (orch s) @
                         [\<lparr>url = lit ''/generate'', body = JObj (formData s)\<rparr>]\<rparr>\<rparr>"
    by (simp add: form_submit_def)
  have click: "\<not> valid (formData s) \<longrightarrow> page_step toStr valid s ClickGenerate = s"
    using blank by (simp add: button_disabled_def)
  from hs fs click show ?thesis by simp
qed

text \<open>
  The text \<open>hi\<close> with a token count of 306, which the form accepts and posts
  as it stands; and with a token count of 2000, where the click posts nothing.
\<close>

theorem payload_is_form_state_witness:
  "obj_get (formData (page_run ToString_unreached form_valid page_init
      [Change (EditText (lit ''hi'')), Change (EditMaxTokens (lit ''306''))]))
     (lit ''text'') = JStr (lit ''hi'') \<and>
   trim (lit ''hi'') \<noteq> [] \<and>
   map body (inflight (orch (form_submit ToString_unreached
     (page_run ToString_unreached form_valid page_init
        [Change (EditText (lit ''hi'')), Change (EditMaxTokens (lit ''306''))])))) =
   [JObj [(lit ''text'', JStr (lit ''hi'')),
          (lit ''platform'', JStr (lit ''General'')),
          (lit ''temperature'', JNum (7 / 10)),
          (lit ''max_tokens'', JStr (lit ''306'')),
          (lit ''use_legacy'', JBool False)]] \<and>
   \<not> form_valid (formData (page_run ToString_unreached form_valid page_init
      [Change (EditText (lit ''hi'')), Change (EditMaxTokens (lit ''2000''))])) \<and>
   page_step ToString_unreached form_valid
     (page_run ToString_unreached form_valid page_init
        [Change (EditText (lit ''hi'')), Change (EditMaxTokens (lit ''2000''))]) ClickGenerate =
     page_run ToString_unreached form_valid page_init
        [Change (EditText (lit ''hi'')), Change (EditMaxTokens (lit ''2000''))]"
proof -
  let ?s = "page_run ToString_unreached form_valid page_init
      [Change (EditText (lit ''hi'')), Change (EditMaxTokens (lit ''306''))]"
  let ?u = "page_run ToString_unreached form_valid page_init
      [Change (EditText (lit ''hi'')), Change (EditMaxTokens (lit ''2000''))]"
  have fs: "formData ?s =
     [(lit ''text'', JStr (lit ''hi'')),
      (lit ''platform'', JStr (lit ''General'')),
      (lit ''temperature'', JNum (7 / 10)),
      (lit ''max_tokens'', JStr (lit ''306'')),
      (lit ''use_legacy'', JBool False)]"
    by (simp add: page_run_def page_init_def initial_formData_def handleInputChange_def lit_def)
  have fu: "formData ?u =
     [(lit ''text'', JStr (lit ''hi'')),
      (lit ''platform'', JStr (lit ''General'')),
      (lit ''temperature'', JNum (7 / 10)),
      (lit ''max_tokens'', JStr (lit ''2000'')),
      (lit ''use_legacy'', JBool False)]"
    by (simp add: page_run_def page_init_def initial_formData_def handleInputChange_def lit_def)
  have os: "inflight (orch ?s) = []"
    by (simp add: page_run_def page_init_def orch_init_def)
  have h1: "obj_get (formData ?s) (lit ''text'') = JStr (lit ''hi'')"
    by (simp only: fs) (simp add: obj_get_def)
  have k1: "obj_get (formData ?u) (lit ''text'') = JStr (lit ''hi'')"
    by (simp only: fu) (simp add: obj_get_def)
  have h2: "trim (lit ''hi'') \<noteq> []"
    by (simp add: trim_def is_space_def lit_def)
  have inv: "\<not> form_valid (formData ?u)"
    by (simp only: fu)
       (simp add: form_valid_def text_present_def max_tokens_valid_def obj_get_def
          decimal_def is_digit_def in_step_def lit_def)
  from payload_is_form_state [OF h1 h2, of ToString_unreached]
  have a: "map body (inflight (orch (form_submit ToString_unreached ?s))) = [JObj (formData ?s)]"
    by (simp add: os)
  from payload_is_form_state [OF k1 h2, of ToString_unreached _ _ form_valid] inv
  have b: "page_step ToString_unreached form_valid ?u ClickGenerate = ?u"
    by blast
  from h1 h2 a b inv show ?thesis
    by (simp only: fs) simp
qed

section \<open>The message of a server error\<close>




section \<open>Overlapping submissions\<close>

text \<open>
  Claim C5, as stated, fails. \<open>handleGenerate\<close> has no guard of its own: called
  for A and then for B before A settles, it has two calls in flight; and when
  B's answer arrives first and A's second, the state left is A's answer.
\<close>

theorem reentrant_submit_counterexample:
  "length (inflight (orch_run ToString_unreached orch_init [Submit request_A, Submit request_B])) = 2 \<and>
   app (orch_run ToString_unreached orch_init
      [Submit request_A, Submit request_B, Settle 1 (Inr response_B), Settle 0 (Inr response_A)]) =
     \<lparr>result = data response_A, isLoading = False, error = JNull\<rparr> \<and>
   data response_A \<noteq> data response_B"
  by (simp add: run_defs response_A_def response_B_def)

text \<open>
  Claim C5, amended. The guard is the submit button of \<open>Generator\<close>, disabled
  while \<open>isLoading\<close>. After any sequence of edits, clicks on the submit button,
  arrivals of answers and dismissals, whatever the browser's validation lets
  through, at most one call is in flight and \<open>isLoading\<close> is true exactly
  while one is. In any state with \<open>isLoading\<close> true a click on the submit
  button changes nothing, so the second submission is dropped. And when the
  answer of the call in flight arrives, it alone is published: its body as
  \<open>result\<close> when it is a success, the network error as \<open>error\<close> when no
  response came, with \<open>isLoading\<close> false and no call left in flight.
\<close>

theorem one_call_in_flight_through_button:
  "length (inflight (orch (page_run toStr valid page_init es))) \<le> 1 \<and>
   isLoading (app (orch (page_run toStr valid page_init es))) =
     (inflight (orch (page_run toStr valid page_init es)) \<noteq> []) \<and>
   (isLoading (app (orch s)) \<longrightarrow> page_step toStr valid s ClickGenerate = s) \<and>
   (isLoading (app (orch (page_run toStr valid page_init es))) \<longrightarrow>
      orch (page_step toStr valid (page_run toStr valid page_init es) (Arrive 0 (Inr r))) =
        \<lparr>app = \<lparr>result = data r, isLoading = False, error = JNull\<rparr>, inflight = []\<rparr> \<and>
      orch (page_step toStr valid (page_run toStr valid page_init es)
              (Arrive 0 (axios_settle m NoResponse))) =
        \<lparr>app = \<lparr>result = JNull, isLoading = False, error = JStr network_error_text\<rparr>,
         inflight = []\<rparr>)"
proof -
  let ?s = "page_run toStr valid page_init es"
  have inv: "page_inv ?s"
    by (rule page_inv_run [OF page_inv_init])
  have click: "isLoading (app (orch s)) \<longrightarrow> page_step toStr valid s ClickGenerate = s"
    by (simp add: button_disabled_def)
  have arrive: "orch (page_step toStr valid ?s (Arrive 0 (Inr r))) =
        \<lparr>app = \<lparr>result = data r, isLoading = False, error = JNull\<rparr>, inflight = []\<rparr> \<and>
      orch (page_step toStr valid ?s (Arrive 0 (axios_settle m NoResponse))) =
        \<lparr>app = \<lparr>result = JNull, isLoading = False, error = JStr network_error_text\<rparr>,
         inflight = []\<rparr>"
    if l: "isLoading (app (orch ?s))"
  proof -
    from inv l have n: "length (inflight (orch ?s)) = 1"
      and z: "result (app (orch ?s)) = JNull" "error (app (orch ?s)) = JNull"
      by (simp_all add: page_inv_def)
    obtain a i where o: "orch ?s = \<lparr>app = a, inflight = i\<rparr>"
      by (cases "orch ?s") simp
    with l z have a: "a = \<lparr>result = JNull, isLoading = True, error = JNull\<rparr>"
      by (cases a) simp
    from o n have i: "length i = 1" by simp
    show ?thesis
      using i
      by (simp add: o a generateContent_def try_catch_def and_then_def new_Error_def
          handleGenerate_settle_def setters network_error_text_def)
  qed
  from inv have "length (inflight (orch ?s)) \<le> 1 \<and>
      isLoading (app (orch ?s)) = (inflight (orch ?s) \<noteq> [])"
    by (auto simp: page_inv_def split: if_splits)
  with click arrive show ?thesis by blast
qed

text \<open>
  A is submitted with a token count the form accepts, the text is changed to
  B and the button is clicked again; then A's answer arrives.
\<close>

theorem one_call_in_flight_through_button_witness:
  "isLoading (app (orch (page_run ToString_unreached form_valid page_init
      [Change (EditText (lit ''A'')), Change (EditMaxTokens (lit ''306'')), ClickGenerate,
       Change (EditText (lit ''B''))]))) \<and>
   map body (inflight (orch (page_run ToString_unreached form_valid page_init
      [Change (EditText (lit ''A'')), Change (EditMaxTokens (lit ''306'')), ClickGenerate,
       Change (EditText (lit ''B'')), ClickGenerate]))) =
     [JObj [(lit ''text'', JStr (lit ''A'')),
            (lit ''platform'', JStr (lit ''General'')),
            (lit ''temperature'', JNum (7 / 10)),
            (lit ''max_tokens'', JStr (lit ''306'')),
            (lit ''use_legacy'', JBool False)]] \<and>
   orch (page_run ToString_unreached form_valid page_init
      [Change (EditText (lit ''A'')), Change (EditMaxTokens (lit ''306'')), ClickGenerate,
       Change (EditText (lit ''B'')), ClickGenerate, Arrive 0 (Inr response_A)]) =
     \<lparr>app = \<lparr>result = data response_A, isLoading = False, error = JNull\<rparr>, inflight = []\<rparr>"
proof -
  let ?es = "[Change (EditText (lit ''A'')), Change (EditMaxTokens (lit ''306'')), ClickGenerate,
       Change (EditText (lit ''B''))]"
  let ?s = "page_run ToString_unreached form_valid page_init ?es"
  have h: "isLoading (app (orch ?s))"
    by (simp add: run_defs)
  have b: "map body (inflight (orch ?s)) =
     [JObj [(lit ''text'', JStr (lit ''A'')),
            (lit ''platform'', JStr (lit ''General'')),
            (lit ''temperature'', JNum (7 / 10)),
            (lit ''max_tokens'', JStr (lit ''306'')),
            (lit ''use_legacy'', JBool False)]]"
    by (simp add: run_defs)
  have r5: "page_run ToString_unreached form_valid page_init (?es @ [ClickGenerate]) =
      page_step ToString_unreached form_valid ?s ClickGenerate"
    by (simp only: page_run_def foldl_append foldl.simps)
  have r6: "page_run ToString_unreached form_valid page_init
        (?es @ [ClickGenerate, Arrive 0 (Inr response_A)]) =
      page_step ToString_unreached form_valid
        (page_step ToString_unreached form_valid ?s ClickGenerate) (Arrive 0 (Inr response_A))"
    by (simp only: page_run_def foldl_append foldl.simps)
  from one_call_in_flight_through_button
      [of ToString_unreached form_valid ?es ?s response_A "[]"] h
  have c: "page_step ToString_unreached form_valid ?s ClickGenerate = ?s"
    and d: "orch (page_step ToString_unreached form_valid ?s (Arrive 0 (Inr response_A))) =
      \<lparr>app = \<lparr>result = data response_A, isLoading = False, error = JNull\<rparr>, inflight = []\<rparr>"
    by blast+
  from r5 c have e5: "page_run ToString_unreached form_valid page_init (?es @ [ClickGenerate]) = ?s"
    by simp
  from r6 c d have e6: "orch (page_run ToString_unreached form_valid page_init
        (?es @ [ClickGenerate, Arrive 0 (Inr response_A)])) =
      \<lparr>app = \<lparr>result = data response_A, isLoading = False, error = JNull\<rparr>, inflight = []\<rparr>"
    by (simp only: r6 c d)
  from h b e5 e6 show ?thesis by simp
qed

section \<open>No response\<close>

text \<open>
  Claim C6. When the call is rejected with an error that has a request and no
  response (which is how axios reports a refused connection, a DNS failure and
  the elapsed timeout, configured as 60000 ms), \<open>generateContent\<close> throws the
  network error, and the submission ends with \<open>isLoading\<close> false, \<open>result\<close>
  null and \<open>error\<close> that message, with no call left in flight. Whatever the
  call settles with, \<open>isLoading\<close> is false afterwards.
\<close>

theorem no_response_is_network_error:
  assumes "response e = None" and "request e"
  shows "generateContent toStr (Inl e) = Inl (new_Error network_error_text) \<and>
         orch_run toStr \<lparr>app = st, inflight = []\<rparr> [Submit payload, Settle 0 (Inl e)] =
           \<lparr>app = \<lparr>result = JNull, isLoading = False, error = JStr network_error_text\<rparr>,
            inflight = []\<rparr> \<and>
         isLoading (handleGenerate_settle toStr posted st') = False \<and>
         timeout api = 60000"
  using assms
  by (simp add: orch_run_def generateContent_def try_catch_def and_then_def new_Error_def
      handleGenerate_begin_def handleGenerate_settle_def setters network_error_text_def api_def
      split: sum.splits)

text \<open>The rejection axios produces when no response arrives.\<close>

theorem no_response_is_network_error_witness:
  "axios_settle [] NoResponse = Inl \<lparr>message = [], response = None, request = True\<rparr> \<and>
   response \<lparr>message = [], response = None, request = True\<rparr> = None \<and>
   request \<lparr>message = [], response = None, request = True\<rparr> \<and>
   orch_run ToString_unreached \<lparr>app = app_init, inflight = []\<rparr>
     [Submit sneaker_request, Settle 0 (axios_settle [] NoResponse)] =
     \<lparr>app = \<lparr>result = JNull, isLoading = False, error = JStr network_error_text\<rparr>,
      inflight = []\<rparr>"
proof -
  let ?e = "\<lparr>message = [], response = None, request = True\<rparr>"
  have h1: "response ?e = None" by simp
  have h2: "request ?e" by simp
  show ?thesis
    using no_response_is_network_error [OF h1 h2, of ToString_unreached app_init sneaker_request]
    by simp
qed

section \<open>The health probe\<close>

text \<open>
  Claim C7. \<open>checkHealth\<close> never throws: whatever the GET settles with, it
  returns a boolean, true exactly when the promise was fulfilled with status
  200. Through axios that is: true exactly when a response with status 200
  arrived, false for every other status and when no response arrived or the
  request was not sent.
\<close>

theorem checkHealth_never_throws:
  "checkHealth got = Inr (case got of Inr r \<Rightarrow> status r = 200 | Inl e \<Rightarrow> False) \<and>
   checkHealth (axios_settle m w) =
     Inr (case w of HttpResponse r \<Rightarrow> status r = 200 | NoResponse \<Rightarrow> False | NotSent \<Rightarrow> False)"
proof -
  have general: "checkHealth g = Inr (case g of Inr r \<Rightarrow> status r = 200 | Inl e \<Rightarrow> False)" for g
    by (simp add: checkHealth_def try_catch_def and_then_def split: sum.splits)
  have "checkHealth (axios_settle m w) =
     Inr (case w of HttpResponse r \<Rightarrow> status r = 200 | NoResponse \<Rightarrow> False | NotSent \<Rightarrow> False)"
    by (cases w) (auto simp add: general validateStatus_def)
  with general [of got] show ?thesis by simp
qed

text \<open>A 503, a 200 and a timeout.\<close>

theorem checkHealth_never_throws_witness:
  "checkHealth (axios_settle [] (HttpResponse overloaded_response)) = Inr False \<and>
   checkHealth (axios_settle [] (HttpResponse sneaker_response)) = Inr True \<and>
   checkHealth (axios_settle [] NoResponse) = Inr False"
  using checkHealth_never_throws [of "axios_settle [] (HttpResponse overloaded_response)" "[]" "HttpResponse overloaded_response"]
    checkHealth_never_throws [of "axios_settle [] (HttpResponse sneaker_response)" "[]" "HttpResponse sneaker_response"]
    checkHealth_never_throws [of "axios_settle [] NoResponse" "[]" NoResponse]
  by (simp add: overloaded_response_def sneaker_response_def validateStatus_def)

section \<open>One payload at a time\<close>

text \<open>
  Claim C8, as stated, fails. With A and B both submitted, A failing for lack
  of a response and B succeeding afterwards, \<open>App\<close> holds B's body in \<open>result\<close>
  and A's message in \<open>error\<close> at once.
\<close>

theorem both_payloads_counterexample:
  "app (orch_run ToString_unreached orch_init
      [Submit request_A, Submit request_B, Settle 0 (axios_settle [] NoResponse),
       Settle 0 (Inr response_B)]) =
     \<lparr>result = data response_B, isLoading = False, error = JStr network_error_text\<rparr> \<and>
   data response_B \<noteq> JNull \<and> JStr network_error_text \<noteq> JNull"
  by (simp add: run_defs response_B_def network_error_text_def)

text \<open>
  Claim C8, amended. After any sequence of submissions, completions and resets
  of \<open>App\<close>, \<open>result\<close> and \<open>error\<close> are both null while \<open>isLoading\<close> is true;
  a submission sets both to null and \<open>isLoading\<close> to true in the turn in which
  it sends its request; and after any sequence of events of the page, where
  the disabled button keeps submissions from overlapping, at most one of
  \<open>result\<close> and \<open>error\<close> is held.
\<close>

theorem at_most_one_payload:
  "(isLoading (app (orch_run toStr orch_init ops)) \<longrightarrow>
      result (app (orch_run toStr orch_init ops)) = JNull \<and>
      error (app (orch_run toStr orch_init ops)) = JNull) \<and>
   orch_step toStr s (Submit payload) =
     \<lparr>app = \<lparr>result = JNull, isLoading = True, error = JNull\<rparr>,
      inflight = inflight s @ [\<lparr>url = lit ''/generate'', body = payload\<rparr>]\<rparr> \<and>
   (result (app (orch (page_run toStr valid page_init es))) = JNull \<or>
    error (app (orch (page_run toStr valid page_init es))) = JNull)"
proof -
  have a: "loading_inv (orch_run toStr orch_init ops)"
    by (rule loading_inv_run [OF loading_inv_init])
  have b: "page_inv (page_run toStr valid page_init es)"
    by (rule page_inv_run [OF page_inv_init])
  from a b show ?thesis
    by (auto simp: loading_inv_def page_inv_def handleGenerate_begin_eq split: if_splits)
qed

text \<open>One submission, not yet settled.\<close>

theorem at_most_one_payload_witness:
  "isLoading (app (orch_run ToString_unreached orch_init [Submit request_A])) \<and>
   result (app (orch_run ToString_unreached orch_init [Submit request_A])) = JNull \<and>
   error (app (orch_run ToString_unreached orch_init [Submit request_A])) = JNull"
proof -
  have h: "isLoading (app (orch_run ToString_unreached orch_init [Submit request_A]))"
    by (simp add: run_defs)
  show ?thesis
    using h at_most_one_payload [of ToString_unreached "[Submit request_A]"]
    by simp
qed

section \<open>The types of the posted fields\<close>

text \<open>
  Claim C9 at a failing input. The user types \<open>hi\<close>, moves the temperature to
  0.8, sets the token count to 306 and submits. \<open>handleInputChange\<close> stores the
  value of an element as the string the element reports, for every element but
  a checkbox, so the body posted carries \<open>temperature\<close> and \<open>max_tokens\<close> as
  strings.
\<close>

theorem edited_numbers_posted_as_strings:
  "map body (inflight (orch (page_run ToString_unreached form_valid page_init
      [Change (EditText (lit ''hi'')), Change (EditTemperature 8),
       Change (EditMaxTokens (lit ''306'')), ClickGenerate]))) =
   [JObj [(lit ''text'', JStr (lit ''hi'')),
          (lit ''platform'', JStr (lit ''General'')),
          (lit ''temperature'', JStr (lit ''0.8'')),
          (lit ''max_tokens'', JStr (lit ''306'')),
          (lit ''use_legacy'', JBool False)]]"
  by (simp add: run_defs)

section \<open>Reset\<close>

text \<open>
  Claim C10. \<open>handleReset\<close> sets \<open>result\<close> and \<open>error\<close> to null and leaves
  \<open>isLoading\<close> as it was; on the orchestrator it changes nothing but \<open>App\<close>'s
  cells, so the calls in flight stay. Doing it twice is doing it once, and
  from the idle state it gives the idle state, once or twice.
\<close>

theorem reset_clears_both_payloads:
  "handleReset st = \<lparr>result = JNull, isLoading = isLoading st, error = JNull\<rparr> \<and>
   handleReset (handleReset st) = handleReset st \<and>
   handleReset app_init = app_init \<and>
   handleReset (handleReset app_init) = app_init \<and>
   orch_step toStr s Reset = s\<lparr>app := handleReset (app s)\<rparr>"
  by (simp add: handleReset_def setters app_init_def)

end
